theory Spec2Isabelle
  imports Main "HOL-Library.Word" "HOL-Library.Signed_Division"
begin

unbundle bit_operations_syntax

section \<open>C types used by thermistor\_app.c\<close>

type_synonym uint8_t = "8 word"
type_synonym uint16_t = "16 word"
type_synonym int16_t = "16 word"
type_synonym uint32_t = "32 word"

text \<open>The C type \<open>int\<close> of the target, where the integer promotions take place.\<close>
type_synonym c_int = "32 word"

text \<open>Status codes (\<open>wiced_result_t\<close>, \<open>wiced_bt_gatt_status_t\<close>, \<open>wiced_bool_t\<close>) and
  plain enumeration constants: only compared for equality by this file.\<close>
type_synonym wiced_result_t = int
type_synonym wiced_bt_gatt_status_t = int

section \<open>Declarations of the included headers\<close>

text \<open>
  thermistor\_app.c includes the SDK headers, \<open>thermistor_util_functions.h\<close> and the
  generated \<open>cycfg_gatt_db.h\<close>; none of them is part of the sources at hand. Every constant,
  macro and generated object of theirs that the file uses is a field of this record, so that
  each theorem below holds for whatever values the headers give them.
  The macro \<open>FROM_BIT16_TO_8\<close> is its value as a function of the argument, together with the
  \<open>sizeof\<close> of its expansion, which line 437 takes.
\<close>

record platform =
  WICED_SUCCESS :: wiced_result_t
  WICED_BT_GATT_SUCCESS :: wiced_bt_gatt_status_t
  GATT_CLIENT_CONFIG_NOTIFICATION :: c_int
  HDLC_ESS_TEMPERATURE_VALUE :: uint16_t
  app_ess_temperature_len :: uint16_t
  WICED_MILLI_SECONDS_PERIODIC_TIMER :: int
  BTM_BLE_GENERAL_DISCOVERABLE_FLAG :: c_int
  BTM_BLE_BREDR_NOT_SUPPORTED :: c_int
  BTM_BLE_ADVERT_TYPE_FLAG :: uint8_t
  BTM_BLE_ADVERT_TYPE_NAME_COMPLETE :: uint8_t
  APPEARANCE_GENERIC_THERMOMETER :: c_int
  UUID_SERVICE_ENVIRONMENTAL_SENSING :: c_int
  FROM_BIT16_TO_8 :: "c_int \<Rightarrow> c_int"
  sizeof_FROM_BIT16_TO_8 :: nat
  app_gap_device_name :: "uint8_t list"
  app_gap_device_name_len :: uint16_t
  BTM_BLE_ADVERT_UNDIRECTED_HIGH :: int
  BLE_ADDR_PUBLIC :: int
  OTA_SECURE_FIRMWARE_UPGRADE :: bool
  WICED_BT_TRACE_ENABLE_or_TRACE_TO_WICED_HCI :: bool

section \<open>The stack boundary\<close>

text \<open>
  What the external functions return during one callback: the sensor driver's reading and the
  status of each stack call. Each is called at most once per callback, so one value each.
\<close>

record boundary =
  ret_thermistor_read :: int16_t
  ret_wiced_bt_gatt_send_notification :: wiced_bt_gatt_status_t
  ret_wiced_bt_dev_read_local_addr :: "uint8_t list"
  ret_wiced_bt_gatt_register :: wiced_bt_gatt_status_t
  ret_wiced_bt_gatt_db_init :: wiced_bt_gatt_status_t
  ret_wiced_init_timer :: wiced_result_t
  ret_wiced_start_timer :: wiced_result_t
  ret_wiced_bt_ble_set_raw_advertisement_data :: wiced_result_t
  ret_wiced_ota_fw_upgrade_init :: int
  ret_wiced_bt_start_advertisements :: wiced_result_t

text \<open>\<open>wiced_bt_ble_advert_elem_t\<close>; \<open>p_data\<close> is the object the pointer refers to, with
  the extent that object has in the source.\<close>

record wiced_bt_ble_advert_elem_t =
  advert_type :: uint8_t
  len :: uint16_t
  p_data :: "uint8_t list"

datatype wiced_bt_management_evt_t =
    BTM_ENABLED_EVT
  | BTM_DISABLED_EVT
  | BTM_BLE_ADVERT_STATE_CHANGED_EVT
  | BTM_BLE_PHY_UPDATE_EVT
  | BTM_OTHER_EVT nat

text \<open>The members of \<open>wiced_bt_management_evt_data_t\<close> that the callback reads.\<close>

record wiced_bt_management_evt_data_t =
  ble_advert_state_changed :: int
  tx_phy :: int
  rx_phy :: int

text \<open>The format of a \<open>WICED_BT_TRACE\<close>: a literal (line breaks and tabs left out), or the
  string one of the naming helpers of \<open>thermistor_util_functions\<close> returns.\<close>

datatype trace_format =
    Lit string
  | Btm_event_name wiced_bt_management_evt_t
  | Btm_advert_mode_name int
  | Gatt_status_name wiced_bt_gatt_status_t

datatype trace_arg = ArgInt int | ArgBytes "uint8_t list"

text \<open>Everything a callback does outside its own data: a diagnostic line, or a call across the
  stack boundary with its arguments.\<close>

datatype effect =
    WICED_BT_TRACE trace_format "trace_arg list"
  | Call_wiced_set_debug_uart
  | Call_wiced_bt_stack_init
  | Call_wiced_bt_dev_read_local_addr
  | Call_wiced_bt_gatt_register
  | Call_wiced_bt_gatt_db_init
  | Call_thermistor_init
  | Call_wiced_init_timer int
  | Call_wiced_start_timer uint32_t
  | Call_wiced_bt_ble_set_raw_advertisement_data uint8_t "wiced_bt_ble_advert_elem_t list"
  | Call_wiced_bt_set_pairable_mode bool bool
  | Call_wiced_ota_fw_upgrade_init bool
  | Call_wiced_bt_start_advertisements int int
  | Call_wiced_bt_gatt_send_notification uint16_t uint16_t uint16_t "uint8_t list"

text \<open>The globals the callbacks share: \<open>thermistor_conn_id\<close> of this file, and the two
  arrays of the generated GATT database.\<close>

record app_state =
  thermistor_conn_id :: uint16_t
  app_ess_temperature :: "uint8_t list"
  app_ess_temperature_client_char_config :: "uint8_t list"

text \<open>An index past the end of an array is undefined behaviour in C.\<close>

datatype fault = OutOfBounds

section \<open>Constants of the file\<close>

definition POLL_TIMER_IN_MS :: uint32_t where
  "POLL_TIMER_IN_MS = 5000"

text \<open>\<open>ABS(temperature % 100)\<close>: the macro \<open>((N<0)?(-N):(N))\<close> pastes its argument without
  parentheses, so the negative branch is \<open>-temperature % 100\<close>. The operand is promoted to
  \<open>int\<close>, and \<open>%\<close> truncates towards zero.\<close>

definition ABS_temperature_mod_100 :: "int \<Rightarrow> int" where
  "ABS_temperature_mod_100 temperature =
     (if temperature smod 100 < 0 then (- temperature) smod 100 else temperature smod 100)"

section \<open>seconds\_timer\_temperature\_cb\<close>

text \<open>Lines 289 and 290: the \<open>int16_t\<close> is promoted to \<open>int\<close> (sign extended), shifted
  arithmetically, masked and cast to \<open>uint8_t\<close>.\<close>

definition temperature_byte0 :: "int16_t \<Rightarrow> uint8_t" where
  "temperature_byte0 temperature = ucast ((scast temperature :: c_int) AND 0xff)"

definition temperature_byte1 :: "int16_t \<Rightarrow> uint8_t" where
  "temperature_byte1 temperature =
     ucast (signed_drop_bit 8 (scast temperature :: c_int) AND 0xff)"

text \<open>The test of lines 299 and 300: the first configuration byte, promoted to \<open>int\<close>,
  masked with \<open>GATT_CLIENT_CONFIG_NOTIFICATION\<close>.\<close>

definition notifications_enabled :: "platform \<Rightarrow> uint8_t \<Rightarrow> bool" where
  "notifications_enabled P cfg0 =
     (0 \<noteq> ((ucast cfg0 :: c_int) AND GATT_CLIENT_CONFIG_NOTIFICATION P))"

definition seconds_timer_temperature_cb ::
  "platform \<Rightarrow> boundary \<Rightarrow> app_state \<Rightarrow> fault + (app_state \<times> effect list)" where
  "seconds_timer_temperature_cb P B s =
     (let temperature = ret_thermistor_read B;
          e1 = [WICED_BT_TRACE (Lit ''Temperature (in degree Celsius) %d.%02d'')
                  [ArgInt (sint temperature sdiv 100),
                   ArgInt (ABS_temperature_mod_100 (sint temperature))]]
      in if length (app_ess_temperature s) < 2 then Inl OutOfBounds
         else
           let s1 = s\<lparr>app_ess_temperature :=
                       (app_ess_temperature s)[0 := temperature_byte0 temperature]\<rparr>;
               s2 = s1\<lparr>app_ess_temperature :=
                       (app_ess_temperature s1)[1 := temperature_byte1 temperature]\<rparr>
           in if 0 \<noteq> thermistor_conn_id s2 then
                (case app_ess_temperature_client_char_config s2 of
                   [] \<Rightarrow> Inl OutOfBounds
                 | cfg0 # _ \<Rightarrow>
                     if notifications_enabled P cfg0 then
                       Inr (s2, e1 @
                         [WICED_BT_TRACE (Lit
                            ''This device is connected to a central device and GATT client notifications are enabled'') [],
                          Call_wiced_bt_gatt_send_notification (thermistor_conn_id s2)
                            (HDLC_ESS_TEMPERATURE_VALUE P) (app_ess_temperature_len P)
                            (app_ess_temperature s2)])
                     else
                       Inr (s2, e1 @
                         [WICED_BT_TRACE (Lit
                            ''This device is connected to a central device and GATT client notifications are not enabled'') []]))
              else
                Inr (s2, e1 @
                  [WICED_BT_TRACE (Lit
                     ''This device is not connected to any BLE central device'') []]))"

text \<open>The decoder is not part of the firmware: it is the peer's reading of the WirePayload.
  This definition follows the words of the spec (sections 3 and 6), to be compared with the
  encoding of lines 289 and 290: exactly 2 bytes, little-endian, two's complement.\<close>

definition spec_decode :: "uint8_t list \<Rightarrow> int16_t option" where
  "spec_decode bs =
     (case bs of
        [b0, b1] \<Rightarrow> Some ((ucast b0 :: int16_t) OR push_bit 8 (ucast b1))
      | _ \<Rightarrow> None)"

section \<open>thermistor\_set\_advertisement\_data\<close>

text \<open>
  The three slots of \<open>adv_elem\<close> are written in turn at index \<open>num_elem\<close>, which counts up
  from 0: each write extends the list by the slot written. \<open>flag\<close> and \<open>uuid_data\<close> are
  single \<open>uint8_t\<close> objects, so the objects \<open>&flag\<close> and \<open>&uuid_data\<close> point to are one
  byte long. The function returns the status of the stack call.
\<close>

definition thermistor_set_advertisement_data ::
  "platform \<Rightarrow> boundary \<Rightarrow> wiced_result_t \<times> effect list" where
  "thermistor_set_advertisement_data P B =
     (let num_elem = (0 :: uint8_t);
          flag = (ucast (BTM_BLE_GENERAL_DISCOVERABLE_FLAG P OR
                         BTM_BLE_BREDR_NOT_SUPPORTED P) :: uint8_t);
          appearance_data =
            (ucast (FROM_BIT16_TO_8 P (APPEARANCE_GENERIC_THERMOMETER P)) :: uint8_t);
          uuid_data =
            (ucast (FROM_BIT16_TO_8 P (UUID_SERVICE_ENVIRONMENTAL_SENSING P)) :: uint8_t);
          adv_elem0 = [\<lparr>advert_type = BTM_BLE_ADVERT_TYPE_FLAG P,
                        len = 1,
                        p_data = [flag]\<rparr>];
          num_elem = num_elem + 1;
          adv_elem1 = adv_elem0 @
                      [\<lparr>advert_type = BTM_BLE_ADVERT_TYPE_NAME_COMPLETE P,
                        len = app_gap_device_name_len P,
                        p_data = app_gap_device_name P\<rparr>];
          num_elem = num_elem + 1;
          adv_elem2 = adv_elem1 @
                      [\<lparr>advert_type = BTM_BLE_ADVERT_TYPE_FLAG P,
                        len = of_nat (sizeof_FROM_BIT16_TO_8 P),
                        p_data = [uuid_data]\<rparr>];
          num_elem = num_elem + 1;
          result = ret_wiced_bt_ble_set_raw_advertisement_data B
      in (result, [Call_wiced_bt_ble_set_raw_advertisement_data num_elem adv_elem2]))"

section \<open>thermistor\_app\_init\<close>

definition thermistor_app_init :: "platform \<Rightarrow> boundary \<Rightarrow> effect list" where
  "thermistor_app_init P B =
     (let status = ret_wiced_bt_gatt_register B in
        [Call_wiced_bt_gatt_register,
         WICED_BT_TRACE (Lit ''GATT status:'') [],
         WICED_BT_TRACE (Gatt_status_name status) [],
         WICED_BT_TRACE (Lit []) []])
     @ [Call_wiced_bt_gatt_db_init]
     @ (if WICED_BT_GATT_SUCCESS P \<noteq> ret_wiced_bt_gatt_db_init B
        then [WICED_BT_TRACE (Lit ''GATT DB Initialization not successful'') []] else [])
     @ [Call_thermistor_init]
     @ [Call_wiced_init_timer (WICED_MILLI_SECONDS_PERIODIC_TIMER P)]
     @ (if WICED_SUCCESS P = ret_wiced_init_timer B
        then [Call_wiced_start_timer POLL_TIMER_IN_MS]
             @ (if WICED_SUCCESS P \<noteq> ret_wiced_start_timer B
                then [WICED_BT_TRACE (Lit ''Seconds Timer Error'') []] else [])
        else [])
     @ (case thermistor_set_advertisement_data P B of
          (result, es) \<Rightarrow>
            es @ (if WICED_SUCCESS P \<noteq> result
                  then [WICED_BT_TRACE (Lit ''Raw advertisement failed'') []] else []))
     @ [Call_wiced_bt_set_pairable_mode False True]
     @ [Call_wiced_ota_fw_upgrade_init (OTA_SECURE_FIRMWARE_UPGRADE P)]
     @ (if ret_wiced_ota_fw_upgrade_init B = 0
        then [WICED_BT_TRACE (Lit ''OTA upgrade Init failure !!!'') []] else [])
     @ [Call_wiced_bt_start_advertisements (BTM_BLE_ADVERT_UNDIRECTED_HIGH P) (BLE_ADDR_PUBLIC P)]
     @ (if WICED_SUCCESS P = ret_wiced_bt_start_advertisements B
        then [WICED_BT_TRACE (Lit ''Starting undirected BLE advertisements successful'') []]
        else [])"

section \<open>thermistor\_management\_callback and application\_start\<close>

text \<open>The three lines every handled event prints after a first empty line.\<close>

definition event_header :: "wiced_bt_management_evt_t \<Rightarrow> effect list" where
  "event_header event =
     [WICED_BT_TRACE (Lit []) [],
      WICED_BT_TRACE (Lit ''Bluetooth Management Event:'') [],
      WICED_BT_TRACE (Btm_event_name event) [],
      WICED_BT_TRACE (Lit []) []]"

fun thermistor_management_callback ::
  "platform \<Rightarrow> boundary \<Rightarrow> wiced_bt_management_evt_t \<Rightarrow> wiced_bt_management_evt_data_t \<Rightarrow>
   app_state \<Rightarrow> wiced_result_t \<times> app_state \<times> effect list" where
  "thermistor_management_callback P B BTM_ENABLED_EVT p_event_data s =
     (WICED_SUCCESS P, s,
      [WICED_BT_TRACE (Lit
         ''CE226300 BLE Environmental Sensing Service Application. This application measures voltage on the selected DC channel every %d milliseconds (configurable) and displays the measured temperature via PUART.'')
         [ArgInt (uint POLL_TIMER_IN_MS)],
       WICED_BT_TRACE (Lit ''Discover this device with the name: %s'')
         [ArgBytes (app_gap_device_name P)],
       Call_wiced_bt_dev_read_local_addr,
       WICED_BT_TRACE (Lit ''Bluetooth Device Address: %B'')
         [ArgBytes (ret_wiced_bt_dev_read_local_addr B)]]
      @ event_header BTM_ENABLED_EVT
      @ thermistor_app_init P B)"
| "thermistor_management_callback P B BTM_DISABLED_EVT p_event_data s =
     (WICED_SUCCESS P, s,
      event_header BTM_DISABLED_EVT
      @ [WICED_BT_TRACE (Lit ''Bluetooth Disabled'') []])"
| "thermistor_management_callback P B BTM_BLE_ADVERT_STATE_CHANGED_EVT p_event_data s =
     (let p_adv_mode = ble_advert_state_changed p_event_data in
      (WICED_SUCCESS P, s,
       event_header BTM_BLE_ADVERT_STATE_CHANGED_EVT
       @ [WICED_BT_TRACE (Lit []) [],
          WICED_BT_TRACE (Lit ''Advertisement state changed to '') [],
          WICED_BT_TRACE (Btm_advert_mode_name p_adv_mode) [],
          WICED_BT_TRACE (Lit []) []]))"
| "thermistor_management_callback P B BTM_BLE_PHY_UPDATE_EVT p_event_data s =
     (WICED_SUCCESS P, s,
      event_header BTM_BLE_PHY_UPDATE_EVT
      @ [WICED_BT_TRACE (Lit ''PHY config is updated as TX_PHY : %dM, RX_PHY : %dM'')
           [ArgInt (tx_phy p_event_data), ArgInt (rx_phy p_event_data)]])"
| "thermistor_management_callback P B (BTM_OTHER_EVT n) p_event_data s =
     (WICED_SUCCESS P, s, [])"

definition application_start :: "platform \<Rightarrow> effect list" where
  "application_start P =
     (if WICED_BT_TRACE_ENABLE_or_TRACE_TO_WICED_HCI P then [Call_wiced_set_debug_uart] else [])
     @ [Call_wiced_bt_stack_init]"

section \<open>The entry points as one reactive system\<close>

text \<open>The firmware enters this file at \<open>application_start\<close> and afterwards only through the
  two callbacks it registers. A run is a sequence of such entries, each with what the
  boundary returns during it; it ends at the first fault.\<close>

datatype entry =
    Application_start
  | Management wiced_bt_management_evt_t wiced_bt_management_evt_data_t
  | Timer_expired

fun dispatch ::
  "platform \<Rightarrow> app_state \<Rightarrow> entry \<times> boundary \<Rightarrow> fault + (app_state \<times> effect list)" where
  "dispatch P s (Application_start, B) = Inr (s, application_start P)"
| "dispatch P s (Management event p_event_data, B) =
     (case thermistor_management_callback P B event p_event_data s of
        (status, s1, es) \<Rightarrow> Inr (s1, es))"
| "dispatch P s (Timer_expired, B) = seconds_timer_temperature_cb P B s"

fun run ::
  "platform \<Rightarrow> app_state \<Rightarrow> (entry \<times> boundary) list \<Rightarrow> fault + (app_state \<times> effect list)" where
  "run P s [] = Inr (s, [])"
| "run P s (c # cs) =
     (case dispatch P s c of
        Inl f \<Rightarrow> Inl f
      | Inr (s1, es1) \<Rightarrow>
          (case run P s1 cs of
             Inl f \<Rightarrow> Inl f
           | Inr (s2, es2) \<Rightarrow> Inr (s2, es1 @ es2)))"

section \<open>Observations on effects\<close>

fun is_trace :: "effect \<Rightarrow> bool" where
  "is_trace (WICED_BT_TRACE f as) = True"
| "is_trace _ = False"

fun is_send_notification :: "effect \<Rightarrow> bool" where
  "is_send_notification (Call_wiced_bt_gatt_send_notification c h l d) = True"
| "is_send_notification _ = False"


fun is_timer_call :: "effect \<Rightarrow> bool" where
  "is_timer_call (Call_wiced_init_timer k) = True"
| "is_timer_call (Call_wiced_start_timer t) = True"
| "is_timer_call _ = False"

fun is_start_advertisements :: "effect \<Rightarrow> bool" where
  "is_start_advertisements (Call_wiced_bt_start_advertisements m a) = True"
| "is_start_advertisements _ = False"

text \<open>The diagnostic lines of an effect list, and its calls across the boundary.\<close>

definition traces :: "effect list \<Rightarrow> effect list" where
  "traces es = filter is_trace es"

definition calls :: "effect list \<Rightarrow> effect list" where
  "calls es = filter (\<lambda>e. \<not> is_trace e) es"

text \<open>The arrays as \<open>cycfg_gatt_db\<close> declares them: two bytes each.\<close>

definition arrays_declared :: "app_state \<Rightarrow> bool" where
  "arrays_declared s =
     (length (app_ess_temperature s) = 2 \<and>
      length (app_ess_temperature_client_char_config s) = 2)"

section \<open>A concrete configuration\<close>

text \<open>One assignment of the header names, used where a theorem is evaluated at a concrete
  input: the advertising data types, the service UUID and the notification bit are the
  Bluetooth assigned numbers; the rest are sample values. No general theorem depends on it.\<close>

definition sample_platform :: platform where
  "sample_platform =
     \<lparr>WICED_SUCCESS = 0,
      WICED_BT_GATT_SUCCESS = 0,
      GATT_CLIENT_CONFIG_NOTIFICATION = 1,
      HDLC_ESS_TEMPERATURE_VALUE = 9,
      app_ess_temperature_len = 2,
      WICED_MILLI_SECONDS_PERIODIC_TIMER = 4,
      BTM_BLE_GENERAL_DISCOVERABLE_FLAG = 2,
      BTM_BLE_BREDR_NOT_SUPPORTED = 4,
      BTM_BLE_ADVERT_TYPE_FLAG = 1,
      BTM_BLE_ADVERT_TYPE_NAME_COMPLETE = 9,
      APPEARANCE_GENERIC_THERMOMETER = 768,
      UUID_SERVICE_ENVIRONMENTAL_SENSING = 0x181A,
      FROM_BIT16_TO_8 = (\<lambda>v. drop_bit 8 v),
      sizeof_FROM_BIT16_TO_8 = 1,
      app_gap_device_name = [0x54, 0x68, 0x65, 0x72, 0x6D],
      app_gap_device_name_len = 5,
      BTM_BLE_ADVERT_UNDIRECTED_HIGH = 3,
      BLE_ADDR_PUBLIC = 0,
      OTA_SECURE_FIRMWARE_UPGRADE = False,
      WICED_BT_TRACE_ENABLE_or_TRACE_TO_WICED_HCI = True\<rparr>"

text \<open>A boundary on which every call succeeds, reading 23.50 degrees.\<close>

definition all_succeed :: boundary where
  "all_succeed =
     \<lparr>ret_thermistor_read = 2350,
      ret_wiced_bt_gatt_send_notification = 0,
      ret_wiced_bt_dev_read_local_addr = [0x20, 0x81, 0x9A, 0x10, 0x00, 0x01],
      ret_wiced_bt_gatt_register = 0,
      ret_wiced_bt_gatt_db_init = 0,
      ret_wiced_init_timer = 0,
      ret_wiced_start_timer = 0,
      ret_wiced_bt_ble_set_raw_advertisement_data = 0,
      ret_wiced_ota_fw_upgrade_init = 1,
      ret_wiced_bt_start_advertisements = 0\<rparr>"

text \<open>The management entry for \<open>BTM_ENABLED_EVT\<close>, the only one that runs
  \<open>thermistor_app_init\<close>.\<close>

fun is_stack_enabled :: "entry \<Rightarrow> bool" where
  "is_stack_enabled (Management BTM_ENABLED_EVT d) = True"
| "is_stack_enabled _ = False"

text \<open>The globals with a given connection id and first configuration byte, the value buffer
  still zero.\<close>

definition example_state :: "uint16_t \<Rightarrow> uint8_t \<Rightarrow> app_state" where
  "example_state conn_id cfg0 =
     \<lparr>thermistor_conn_id = conn_id,
      app_ess_temperature = [0, 0],
      app_ess_temperature_client_char_config = [cfg0, 0]\<rparr>"

definition no_event_data :: wiced_bt_management_evt_data_t where
  "no_event_data = \<lparr>ble_advert_state_changed = 0, tx_phy = 0, rx_phy = 0\<rparr>"




section \<open>The wire payload\<close>

lemma mask_0xff: "(0xff :: c_int) = mask 8"
  by (simp add: mask_eq_exp_minus_1)

lemma temperature_byte0_low: "temperature_byte0 t = ucast t"
  unfolding temperature_byte0_def mask_0xff
  by (rule bit_word_eqI) (auto simp: bit_simps)

lemma temperature_byte1_high: "temperature_byte1 t = ucast (drop_bit 8 t)"
  unfolding temperature_byte1_def mask_0xff
  by (rule bit_word_eqI) (auto simp: bit_simps)

text \<open>
  Claim C2. For every 16-bit signed integer \<open>x\<close>, the two bytes the timer callback stores
  for it (byte 0 = \<open>x & 0xff\<close>, byte 1 = \<open>(x >> 8) & 0xff\<close>), read back as a little-endian
  two's-complement value, give \<open>x\<close> again.
\<close>

theorem wire_payload_round_trip:
  "spec_decode [temperature_byte0 x, temperature_byte1 x] = Some x"
  unfolding spec_decode_def temperature_byte0_low temperature_byte1_high
  by simp (rule bit_word_eqI, auto simp: bit_simps)

section \<open>The timer callback\<close>

text \<open>With both arrays two bytes long the callback never faults, and this is all it does.\<close>

lemma tick_result:
  assumes "arrays_declared s"
  shows "seconds_timer_temperature_cb P B s =
    Inr (s\<lparr>app_ess_temperature :=
             [temperature_byte0 (ret_thermistor_read B), temperature_byte1 (ret_thermistor_read B)]\<rparr>,
         WICED_BT_TRACE (Lit ''Temperature (in degree Celsius) %d.%02d'')
            [ArgInt (sint (ret_thermistor_read B) sdiv 100),
             ArgInt (ABS_temperature_mod_100 (sint (ret_thermistor_read B)))] #
         (if 0 \<noteq> thermistor_conn_id s then
            if notifications_enabled P (app_ess_temperature_client_char_config s ! 0) then
              [WICED_BT_TRACE (Lit
                 ''This device is connected to a central device and GATT client notifications are enabled'') [],
               Call_wiced_bt_gatt_send_notification (thermistor_conn_id s)
                 (HDLC_ESS_TEMPERATURE_VALUE P) (app_ess_temperature_len P)
                 [temperature_byte0 (ret_thermistor_read B), temperature_byte1 (ret_thermistor_read B)]]
            else
              [WICED_BT_TRACE (Lit
                 ''This device is connected to a central device and GATT client notifications are not enabled'') []]
          else
            [WICED_BT_TRACE (Lit ''This device is not connected to any BLE central device'') []]))"
proof -
  from assms obtain a b where t: "app_ess_temperature s = [a, b]"
    by (auto simp: arrays_declared_def length_Suc_conv numeral_2_eq_2)
  from assms obtain c d where c: "app_ess_temperature_client_char_config s = [c, d]"
    by (auto simp: arrays_declared_def length_Suc_conv numeral_2_eq_2)
  show ?thesis
    by (simp add: seconds_timer_temperature_cb_def Let_def t c)
qed

lemma arrays_declared_example: "arrays_declared (example_state conn_id cfg0)"
  by (simp add: arrays_declared_def example_state_def)

text \<open>
  Claim C1, as amended. On every timer tick the callback returns without fault, and it
  requests a notification send if and only if \<open>thermistor_conn_id\<close> is not 0 and the first
  configuration byte, masked with \<open>GATT_CLIENT_CONFIG_NOTIFICATION\<close>, is not 0; then it
  requests exactly one, for the connection, with the value just stored. In the three other
  combinations it requests no send and reports no error, but it is not silent: after the
  temperature line it prints one line, saying that the device is not connected, or that it is
  connected and notifications are not enabled.
\<close>

theorem notification_gate:
  assumes "arrays_declared s"
  shows "\<exists>s' es. seconds_timer_temperature_cb P B s = Inr (s', es) \<and>
           filter is_send_notification es =
             (if thermistor_conn_id s \<noteq> 0 \<and>
                 (ucast (app_ess_temperature_client_char_config s ! 0) :: c_int) AND
                   GATT_CLIENT_CONFIG_NOTIFICATION P \<noteq> 0
              then [Call_wiced_bt_gatt_send_notification (thermistor_conn_id s)
                      (HDLC_ESS_TEMPERATURE_VALUE P) (app_ess_temperature_len P)
                      (app_ess_temperature s')]
              else []) \<and>
           (thermistor_conn_id s = 0 \<longrightarrow>
              es = [WICED_BT_TRACE (Lit ''Temperature (in degree Celsius) %d.%02d'')
                      [ArgInt (sint (ret_thermistor_read B) sdiv 100),
                       ArgInt (ABS_temperature_mod_100 (sint (ret_thermistor_read B)))],
                    WICED_BT_TRACE (Lit
                      ''This device is not connected to any BLE central device'') []]) \<and>
           (thermistor_conn_id s \<noteq> 0 \<and>
            (ucast (app_ess_temperature_client_char_config s ! 0) :: c_int) AND
              GATT_CLIENT_CONFIG_NOTIFICATION P = 0 \<longrightarrow>
              es = [WICED_BT_TRACE (Lit ''Temperature (in degree Celsius) %d.%02d'')
                      [ArgInt (sint (ret_thermistor_read B) sdiv 100),
                       ArgInt (ABS_temperature_mod_100 (sint (ret_thermistor_read B)))],
                    WICED_BT_TRACE (Lit
                      ''This device is connected to a central device and GATT client notifications are not enabled'') []])"
  by (simp add: tick_result [OF assms] notifications_enabled_def)

text \<open>The gate at a connected, subscribed state, at a disconnected one whose flag is set, and at
  a connected one with the indication bit alone.\<close>

theorem notification_gate_witness:
  "arrays_declared (example_state 1 1) \<and>
   (\<exists>s' es. seconds_timer_temperature_cb sample_platform all_succeed (example_state 1 1) =
               Inr (s', es) \<and>
             filter is_send_notification es =
               [Call_wiced_bt_gatt_send_notification 1 9 2 (app_ess_temperature s')]) \<and>
   arrays_declared (example_state 0 1) \<and>
   (\<exists>s' es. seconds_timer_temperature_cb sample_platform all_succeed (example_state 0 1) =
               Inr (s', es) \<and>
             filter is_send_notification es = [] \<and>
             es = [WICED_BT_TRACE (Lit ''Temperature (in degree Celsius) %d.%02d'')
                     [ArgInt 23, ArgInt 50],
                   WICED_BT_TRACE (Lit
                     ''This device is not connected to any BLE central device'') []]) \<and>
   arrays_declared (example_state 1 2) \<and>
   (\<exists>s' es. seconds_timer_temperature_cb sample_platform all_succeed (example_state 1 2) =
               Inr (s', es) \<and>
             filter is_send_notification es = [] \<and>
             es = [WICED_BT_TRACE (Lit ''Temperature (in degree Celsius) %d.%02d'')
                     [ArgInt 23, ArgInt 50],
                   WICED_BT_TRACE (Lit
                     ''This device is connected to a central device and GATT client notifications are not enabled'') []])"
proof -
  have a: "arrays_declared (example_state 1 1)" and b: "arrays_declared (example_state 0 1)"
    and c: "arrays_declared (example_state 1 2)"
    by (rule arrays_declared_example)+
  have r: "sint (ret_thermistor_read all_succeed) sdiv 100 = 23"
    "ABS_temperature_mod_100 (sint (ret_thermistor_read all_succeed)) = 50"
    by (simp_all add: all_succeed_def ABS_temperature_mod_100_def)
  have "\<exists>s' es. seconds_timer_temperature_cb sample_platform all_succeed (example_state 1 1) =
               Inr (s', es) \<and>
             filter is_send_notification es =
               [Call_wiced_bt_gatt_send_notification 1 9 2 (app_ess_temperature s')]"
    using notification_gate [OF a, of sample_platform all_succeed]
    by (simp add: example_state_def sample_platform_def)
  moreover
  have "\<exists>s' es. seconds_timer_temperature_cb sample_platform all_succeed (example_state 0 1) =
               Inr (s', es) \<and>
             filter is_send_notification es = [] \<and>
             es = [WICED_BT_TRACE (Lit ''Temperature (in degree Celsius) %d.%02d'')
                     [ArgInt 23, ArgInt 50],
                   WICED_BT_TRACE (Lit
                     ''This device is not connected to any BLE central device'') []]"
    using notification_gate [OF b, of sample_platform all_succeed]
    by (simp add: example_state_def r)
  moreover
  have "\<exists>s' es. seconds_timer_temperature_cb sample_platform all_succeed (example_state 1 2) =
               Inr (s', es) \<and>
             filter is_send_notification es = [] \<and>
             es = [WICED_BT_TRACE (Lit ''Temperature (in degree Celsius) %d.%02d'')
                     [ArgInt 23, ArgInt 50],
                   WICED_BT_TRACE (Lit
                     ''This device is connected to a central device and GATT client notifications are not enabled'') []]"
    using notification_gate [OF c, of sample_platform all_succeed]
    by (simp add: example_state_def sample_platform_def r)
  ultimately show ?thesis using a b c by blast
qed

text \<open>
  The claim as stated fails: a tick that does not notify is not silent. Disconnected, or
  connected with the configuration bytes zero, it prints a line saying so.
\<close>

theorem tick_prints_when_not_notifying:
  "seconds_timer_temperature_cb sample_platform all_succeed (example_state 0 1) =
     Inr ((example_state 0 1)\<lparr>app_ess_temperature := [0x2E, 0x09]\<rparr>,
          [WICED_BT_TRACE (Lit ''Temperature (in degree Celsius) %d.%02d'')
             [ArgInt 23, ArgInt 50],
           WICED_BT_TRACE (Lit ''This device is not connected to any BLE central device'') []]) \<and>
   seconds_timer_temperature_cb sample_platform all_succeed (example_state 1 0) =
     Inr ((example_state 1 0)\<lparr>app_ess_temperature := [0x2E, 0x09]\<rparr>,
          [WICED_BT_TRACE (Lit ''Temperature (in degree Celsius) %d.%02d'')
             [ArgInt 23, ArgInt 50],
           WICED_BT_TRACE (Lit
             ''This device is connected to a central device and GATT client notifications are not enabled'') []])"
  by (simp add: seconds_timer_temperature_cb_def sample_platform_def all_succeed_def Let_def
      notifications_enabled_def temperature_byte0_def temperature_byte1_def
      ABS_temperature_mod_100_def example_state_def)

lemma spec_decode_low_high:
  "spec_decode [ucast (t :: int16_t), ucast (drop_bit 8 t)] = Some t"
  unfolding spec_decode_def
  by simp (rule bit_word_eqI, auto simp: bit_simps)

text \<open>
  Claim C7. On every timer tick, whatever the connection id and the configuration bytes, the
  callback returns with \<open>app_ess_temperature\<close> holding the low byte and then the high byte
  of the reading just taken, which read back as a little-endian two's-complement value give
  the reading, and with nothing else changed; when the device is connected and the
  notification bit is clear, the tick requests no notification.
\<close>

theorem tick_stores_reading:
  assumes "arrays_declared s"
  shows "\<exists>s' es. seconds_timer_temperature_cb P B s = Inr (s', es) \<and>
           s' = s\<lparr>app_ess_temperature :=
                    [ucast (ret_thermistor_read B), ucast (drop_bit 8 (ret_thermistor_read B))]\<rparr> \<and>
           spec_decode (app_ess_temperature s') = Some (ret_thermistor_read B) \<and>
           (thermistor_conn_id s \<noteq> 0 \<and>
            (ucast (app_ess_temperature_client_char_config s ! 0) :: c_int) AND
              GATT_CLIENT_CONFIG_NOTIFICATION P = 0
            \<longrightarrow> filter is_send_notification es = [])"
  by (simp add: tick_result [OF assms] notifications_enabled_def
      temperature_byte0_low temperature_byte1_high spec_decode_low_high)

text \<open>Connected with the configuration bytes zero, reading 2350: the buffer becomes
  \<open>[0x2E, 0x09]\<close>, which reads back as 2350, and nothing is sent.\<close>

theorem tick_stores_reading_witness:
  "arrays_declared (example_state 1 0) \<and>
   (\<exists>s' es. seconds_timer_temperature_cb sample_platform all_succeed (example_state 1 0) =
            Inr (s', es) \<and>
          s' = (example_state 1 0)\<lparr>app_ess_temperature := [0x2E, 0x09]\<rparr> \<and>
          spec_decode (app_ess_temperature s') = Some 2350 \<and>
          filter is_send_notification es = [])"
proof -
  have a: "arrays_declared (example_state 1 0)"
    by (rule arrays_declared_example)
  have r: "ret_thermistor_read all_succeed = 2350"
    by (simp add: all_succeed_def)
  have b: "(ucast (2350 :: int16_t) :: uint8_t) = 0x2E"
    "(ucast (drop_bit 8 (2350 :: int16_t)) :: uint8_t) = 0x09"
    by simp_all
  have "\<exists>s' es. seconds_timer_temperature_cb sample_platform all_succeed (example_state 1 0) =
            Inr (s', es) \<and>
          s' = (example_state 1 0)\<lparr>app_ess_temperature := [0x2E, 0x09]\<rparr> \<and>
          spec_decode (app_ess_temperature s') = Some 2350 \<and>
          filter is_send_notification es = []"
    using tick_stores_reading [OF a, of sample_platform all_succeed]
    unfolding r b
    by (simp add: example_state_def sample_platform_def)
  with a show ?thesis by blast
qed

lemma and_single_bit:
  "((ucast (c :: uint8_t) :: c_int) AND 2 ^ k = 0) = (\<not> bit c k)"
proof -
  have "((ucast c :: c_int) AND 2 ^ k = 0) = (\<not> bit (ucast c :: c_int) k)"
    by (rule and_exp_eq_0_iff_not_bit)
  moreover have "bit (ucast c :: c_int) k = bit c k"
    by (auto simp: bit_simps dest: bit_imp_le_length)
  ultimately show ?thesis by metis
qed

text \<open>
  Claim C10. When \<open>GATT_CLIENT_CONFIG_NOTIFICATION\<close> is a single bit, a connected tick
  requests a notification exactly when that bit of the first configuration byte is set:
  no other bit of that byte (the indication bit among them) and nothing of the second byte
  takes part.
\<close>

theorem gate_tests_notification_bit_only:
  assumes "arrays_declared s"
    and "thermistor_conn_id s \<noteq> 0"
    and "GATT_CLIENT_CONFIG_NOTIFICATION P = 2 ^ k"
  shows "\<exists>s' es. seconds_timer_temperature_cb P B s = Inr (s', es) \<and>
           ((filter is_send_notification es \<noteq> []) =
            bit (app_ess_temperature_client_char_config s ! 0) k)"
  using assms(2,3)
  by (simp add: tick_result [OF assms(1)] notifications_enabled_def and_single_bit)

text \<open>Connected, the first configuration byte 2 (the indication bit alone), the notification
  bit being bit 0: nothing is sent.\<close>

theorem gate_tests_notification_bit_only_witness:
  "arrays_declared (example_state 1 2) \<and>
   thermistor_conn_id (example_state 1 2) \<noteq> 0 \<and>
   GATT_CLIENT_CONFIG_NOTIFICATION sample_platform = 2 ^ 0 \<and>
   (\<exists>s' es. seconds_timer_temperature_cb sample_platform all_succeed (example_state 1 2) =
               Inr (s', es) \<and>
             filter is_send_notification es = [])"
proof -
  have a: "arrays_declared (example_state 1 2)"
    by (rule arrays_declared_example)
  have b: "thermistor_conn_id (example_state 1 2) \<noteq> 0"
    by (simp add: example_state_def)
  have c: "GATT_CLIENT_CONFIG_NOTIFICATION sample_platform = 2 ^ 0"
    by (simp add: sample_platform_def)
  have "\<exists>s' es. seconds_timer_temperature_cb sample_platform all_succeed (example_state 1 2) =
               Inr (s', es) \<and>
             filter is_send_notification es = []"
    using gate_tests_notification_bit_only [OF a b c, of all_succeed]
    by (simp add: example_state_def)
  with a b c show ?thesis by blast
qed

text \<open>
  Claim C6, as amended. When the gate passes, the tick makes exactly one send request, as its
  last action: it prints nothing after it and makes no second request. The status the stack
  returns is discarded without being logged: the tick's result is the same whatever that
  status is, and so is every later tick.
\<close>

theorem send_is_fire_and_forget:
  assumes "arrays_declared s"
    and "thermistor_conn_id s \<noteq> 0"
    and "notifications_enabled P (app_ess_temperature_client_char_config s ! 0)"
  shows "seconds_timer_temperature_cb P B s =
           Inr (s\<lparr>app_ess_temperature :=
                    [temperature_byte0 (ret_thermistor_read B),
                     temperature_byte1 (ret_thermistor_read B)]\<rparr>,
                [WICED_BT_TRACE (Lit ''Temperature (in degree Celsius) %d.%02d'')
                   [ArgInt (sint (ret_thermistor_read B) sdiv 100),
                    ArgInt (ABS_temperature_mod_100 (sint (ret_thermistor_read B)))],
                 WICED_BT_TRACE (Lit
                   ''This device is connected to a central device and GATT client notifications are enabled'') [],
                 Call_wiced_bt_gatt_send_notification (thermistor_conn_id s)
                   (HDLC_ESS_TEMPERATURE_VALUE P) (app_ess_temperature_len P)
                   [temperature_byte0 (ret_thermistor_read B),
                    temperature_byte1 (ret_thermistor_read B)]]) \<and>
         seconds_timer_temperature_cb P (B\<lparr>ret_wiced_bt_gatt_send_notification := r\<rparr>) s =
           seconds_timer_temperature_cb P B s \<and>
         run P s [(Timer_expired, B\<lparr>ret_wiced_bt_gatt_send_notification := r\<rparr>), (Timer_expired, B')] =
           run P s [(Timer_expired, B), (Timer_expired, B')]"
  using assms(2,3) by (simp add: tick_result [OF assms(1)])

text \<open>A connected, subscribed state, with the send rejected (status 133) or accepted.\<close>

theorem send_is_fire_and_forget_witness:
  "arrays_declared (example_state 1 1) \<and>
   thermistor_conn_id (example_state 1 1) \<noteq> 0 \<and>
   notifications_enabled sample_platform
     (app_ess_temperature_client_char_config (example_state 1 1) ! 0) \<and>
   seconds_timer_temperature_cb sample_platform
     (all_succeed\<lparr>ret_wiced_bt_gatt_send_notification := 133\<rparr>) (example_state 1 1) =
   seconds_timer_temperature_cb sample_platform all_succeed (example_state 1 1) \<and>
   run sample_platform (example_state 1 1)
     [(Timer_expired, all_succeed\<lparr>ret_wiced_bt_gatt_send_notification := 133\<rparr>),
      (Timer_expired, all_succeed)] =
   run sample_platform (example_state 1 1)
     [(Timer_expired, all_succeed), (Timer_expired, all_succeed)]"
proof -
  have a: "arrays_declared (example_state 1 1)"
    by (rule arrays_declared_example)
  have b: "thermistor_conn_id (example_state 1 1) \<noteq> 0"
    by (simp add: example_state_def)
  have c: "notifications_enabled sample_platform
     (app_ess_temperature_client_char_config (example_state 1 1) ! 0)"
    by (simp add: example_state_def sample_platform_def notifications_enabled_def)
  from send_is_fire_and_forget [OF a b c, of all_succeed 133 all_succeed] a b c
  show ?thesis by blast
qed

text \<open>
  The claim as stated fails: with the send rejected (status 133, not
  \<open>WICED_BT_GATT_SUCCESS\<close>), the tick prints its two informational lines, requests the send,
  and prints no line about the failure.
\<close>

theorem send_failure_not_logged:
  "ret_wiced_bt_gatt_send_notification (all_succeed\<lparr>ret_wiced_bt_gatt_send_notification := 133\<rparr>)
     \<noteq> WICED_BT_GATT_SUCCESS sample_platform \<and>
   seconds_timer_temperature_cb sample_platform
     (all_succeed\<lparr>ret_wiced_bt_gatt_send_notification := 133\<rparr>) (example_state 1 1) =
   Inr ((example_state 1 1)\<lparr>app_ess_temperature := [0x2E, 0x09]\<rparr>,
        [WICED_BT_TRACE (Lit ''Temperature (in degree Celsius) %d.%02d'') [ArgInt 23, ArgInt 50],
         WICED_BT_TRACE (Lit
           ''This device is connected to a central device and GATT client notifications are enabled'') [],
         Call_wiced_bt_gatt_send_notification 1 9 2 [0x2E, 0x09]])"
  by (simp add: seconds_timer_temperature_cb_def sample_platform_def all_succeed_def Let_def
      notifications_enabled_def temperature_byte0_def temperature_byte1_def
      ABS_temperature_mod_100_def example_state_def)

section \<open>The advertisement data\<close>

text \<open>
  Claim C3. The call to \<open>wiced_bt_ble_set_raw_advertisement_data\<close> always passes exactly three
  elements: a flags element of one byte (general discoverable and BR/EDR not supported), then
  a complete-name element with the bytes of the device name. The third element, built from
  the Environmental Sensing service UUID, does not carry a service-UUID type tag and two
  bytes: its tag is \<open>BTM_BLE_ADVERT_TYPE_FLAG\<close>, the tag of the first element, and its data
  is the single \<open>uint8_t\<close> \<open>uuid_data\<close>.
\<close>

theorem service_element_reuses_flag_tag:
  "\<exists>e0 e1 e2.
     thermistor_set_advertisement_data P B =
       (ret_wiced_bt_ble_set_raw_advertisement_data B,
        [Call_wiced_bt_ble_set_raw_advertisement_data 3 [e0, e1, e2]]) \<and>
     advert_type e0 = BTM_BLE_ADVERT_TYPE_FLAG P \<and> len e0 = 1 \<and>
     p_data e0 = [ucast (BTM_BLE_GENERAL_DISCOVERABLE_FLAG P OR BTM_BLE_BREDR_NOT_SUPPORTED P)] \<and>
     advert_type e1 = BTM_BLE_ADVERT_TYPE_NAME_COMPLETE P \<and>
     len e1 = app_gap_device_name_len P \<and> p_data e1 = app_gap_device_name P \<and>
     advert_type e2 = advert_type e0 \<and>
     p_data e2 = [ucast (FROM_BIT16_TO_8 P (UUID_SERVICE_ENVIRONMENTAL_SENSING P))] \<and>
     length (p_data e2) = 1"
  by (simp add: thermistor_set_advertisement_data_def Let_def)

section \<open>The initialization sequence\<close>

text \<open>The calls of \<open>thermistor_app_init\<close> across the boundary, and the lines it prints, for
  every outcome of every step.\<close>

lemma calls_app_init:
  "calls (thermistor_app_init P B) =
     [Call_wiced_bt_gatt_register, Call_wiced_bt_gatt_db_init, Call_thermistor_init,
      Call_wiced_init_timer (WICED_MILLI_SECONDS_PERIODIC_TIMER P)]
     @ (if WICED_SUCCESS P = ret_wiced_init_timer B
        then [Call_wiced_start_timer POLL_TIMER_IN_MS] else [])
     @ snd (thermistor_set_advertisement_data P B)
     @ [Call_wiced_bt_set_pairable_mode False True,
        Call_wiced_ota_fw_upgrade_init (OTA_SECURE_FIRMWARE_UPGRADE P),
        Call_wiced_bt_start_advertisements (BTM_BLE_ADVERT_UNDIRECTED_HIGH P) (BLE_ADDR_PUBLIC P)]"
  by (simp add: calls_def thermistor_app_init_def thermistor_set_advertisement_data_def Let_def)

lemma traces_app_init:
  "traces (thermistor_app_init P B) =
     [WICED_BT_TRACE (Lit ''GATT status:'') [],
      WICED_BT_TRACE (Gatt_status_name (ret_wiced_bt_gatt_register B)) [],
      WICED_BT_TRACE (Lit []) []]
     @ (if WICED_BT_GATT_SUCCESS P \<noteq> ret_wiced_bt_gatt_db_init B
        then [WICED_BT_TRACE (Lit ''GATT DB Initialization not successful'') []] else [])
     @ (if WICED_SUCCESS P = ret_wiced_init_timer B \<and> WICED_SUCCESS P \<noteq> ret_wiced_start_timer B
        then [WICED_BT_TRACE (Lit ''Seconds Timer Error'') []] else [])
     @ (if WICED_SUCCESS P \<noteq> ret_wiced_bt_ble_set_raw_advertisement_data B
        then [WICED_BT_TRACE (Lit ''Raw advertisement failed'') []] else [])
     @ (if ret_wiced_ota_fw_upgrade_init B = 0
        then [WICED_BT_TRACE (Lit ''OTA upgrade Init failure !!!'') []] else [])
     @ (if WICED_SUCCESS P = ret_wiced_bt_start_advertisements B
        then [WICED_BT_TRACE (Lit ''Starting undirected BLE advertisements successful'') []]
        else [])"
  by (simp add: traces_def thermistor_app_init_def thermistor_set_advertisement_data_def Let_def)

text \<open>
  Claim C4. In \<open>thermistor_app_init\<close>, the calls made before the first timer call or
  start of advertising are exactly the GATT registration, the GATT database initialization
  and the sensor initialization, in this order; the timer calls and the one start of
  advertising follow, whatever any step returns. The management callback makes no timer or
  advertising call of its own before it enters \<open>thermistor_app_init\<close> on
  \<open>BTM_ENABLED_EVT\<close>.
\<close>

theorem registration_and_sensor_before_timer_and_advertising:
  "takeWhile (\<lambda>e. \<not> (is_timer_call e \<or> is_start_advertisements e))
     (calls (thermistor_app_init P B)) =
     [Call_wiced_bt_gatt_register, Call_wiced_bt_gatt_db_init, Call_thermistor_init] \<and>
   filter is_timer_call (thermistor_app_init P B) =
     Call_wiced_init_timer (WICED_MILLI_SECONDS_PERIODIC_TIMER P) #
     (if WICED_SUCCESS P = ret_wiced_init_timer B
      then [Call_wiced_start_timer POLL_TIMER_IN_MS] else []) \<and>
   filter is_start_advertisements (thermistor_app_init P B) =
     [Call_wiced_bt_start_advertisements (BTM_BLE_ADVERT_UNDIRECTED_HIGH P) (BLE_ADDR_PUBLIC P)] \<and>
   (\<exists>pre. snd (snd (thermistor_management_callback P B BTM_ENABLED_EVT d s)) =
            pre @ thermistor_app_init P B \<and>
          filter (\<lambda>e. is_timer_call e \<or> is_start_advertisements e) pre = [])"
  by (simp add: calls_app_init)
     (simp add: thermistor_app_init_def thermistor_set_advertisement_data_def Let_def
        event_header_def)

text \<open>
  Claim C5, as amended. Every step of \<open>thermistor_app_init\<close> is called whatever the earlier
  steps returned, except \<open>wiced_start_timer\<close>, which is called only when
  \<open>wiced_init_timer\<close> succeeded. A failure of the GATT database initialization, of
  \<open>wiced_start_timer\<close>, of the advertisement-set step and of the upgrade initialization
  each prints its own line, whatever the other steps return; the GATT registration status is
  always printed by name; a failure of \<open>wiced_init_timer\<close> or of the start of advertising
  prints nothing (the start of advertising prints a line on success only). In particular,
  when only the advertisement-set step fails, the one failure line printed is
  \<open>Raw advertisement failed\<close>.
\<close>

theorem init_steps_independent:
  "(\<exists>elems. calls (thermistor_app_init P B) =
     [Call_wiced_bt_gatt_register, Call_wiced_bt_gatt_db_init, Call_thermistor_init,
      Call_wiced_init_timer (WICED_MILLI_SECONDS_PERIODIC_TIMER P)]
     @ (if WICED_SUCCESS P = ret_wiced_init_timer B
        then [Call_wiced_start_timer POLL_TIMER_IN_MS] else [])
     @ [Call_wiced_bt_ble_set_raw_advertisement_data 3 elems,
        Call_wiced_bt_set_pairable_mode False True,
        Call_wiced_ota_fw_upgrade_init (OTA_SECURE_FIRMWARE_UPGRADE P),
        Call_wiced_bt_start_advertisements (BTM_BLE_ADVERT_UNDIRECTED_HIGH P) (BLE_ADDR_PUBLIC P)]) \<and>
   traces (thermistor_app_init P B) =
     [WICED_BT_TRACE (Lit ''GATT status:'') [],
      WICED_BT_TRACE (Gatt_status_name (ret_wiced_bt_gatt_register B)) [],
      WICED_BT_TRACE (Lit []) []]
     @ (if WICED_BT_GATT_SUCCESS P \<noteq> ret_wiced_bt_gatt_db_init B
        then [WICED_BT_TRACE (Lit ''GATT DB Initialization not successful'') []] else [])
     @ (if WICED_SUCCESS P = ret_wiced_init_timer B \<and> WICED_SUCCESS P \<noteq> ret_wiced_start_timer B
        then [WICED_BT_TRACE (Lit ''Seconds Timer Error'') []] else [])
     @ (if WICED_SUCCESS P \<noteq> ret_wiced_bt_ble_set_raw_advertisement_data B
        then [WICED_BT_TRACE (Lit ''Raw advertisement failed'') []] else [])
     @ (if ret_wiced_ota_fw_upgrade_init B = 0
        then [WICED_BT_TRACE (Lit ''OTA upgrade Init failure !!!'') []] else [])
     @ (if WICED_SUCCESS P = ret_wiced_bt_start_advertisements B
        then [WICED_BT_TRACE (Lit ''Starting undirected BLE advertisements successful'') []]
        else []) \<and>
   (WICED_SUCCESS P \<noteq> ret_wiced_bt_ble_set_raw_advertisement_data B \<and>
    WICED_BT_GATT_SUCCESS P = ret_wiced_bt_gatt_db_init B \<and>
    WICED_SUCCESS P = ret_wiced_init_timer B \<and>
    WICED_SUCCESS P = ret_wiced_start_timer B \<and>
    ret_wiced_ota_fw_upgrade_init B \<noteq> 0 \<and>
    WICED_SUCCESS P = ret_wiced_bt_start_advertisements B \<longrightarrow>
    traces (thermistor_app_init P B) =
      [WICED_BT_TRACE (Lit ''GATT status:'') [],
       WICED_BT_TRACE (Gatt_status_name (ret_wiced_bt_gatt_register B)) [],
       WICED_BT_TRACE (Lit []) [],
       WICED_BT_TRACE (Lit ''Raw advertisement failed'') [],
       WICED_BT_TRACE (Lit ''Starting undirected BLE advertisements successful'') []])"
proof (intro conjI)
  show "\<exists>elems. calls (thermistor_app_init P B) =
     [Call_wiced_bt_gatt_register, Call_wiced_bt_gatt_db_init, Call_thermistor_init,
      Call_wiced_init_timer (WICED_MILLI_SECONDS_PERIODIC_TIMER P)]
     @ (if WICED_SUCCESS P = ret_wiced_init_timer B
        then [Call_wiced_start_timer POLL_TIMER_IN_MS] else [])
     @ [Call_wiced_bt_ble_set_raw_advertisement_data 3 elems,
        Call_wiced_bt_set_pairable_mode False True,
        Call_wiced_ota_fw_upgrade_init (OTA_SECURE_FIRMWARE_UPGRADE P),
        Call_wiced_bt_start_advertisements (BTM_BLE_ADVERT_UNDIRECTED_HIGH P) (BLE_ADDR_PUBLIC P)]"
    by (simp add: calls_app_init thermistor_set_advertisement_data_def Let_def)
next
  show "traces (thermistor_app_init P B) =
     [WICED_BT_TRACE (Lit ''GATT status:'') [],
      WICED_BT_TRACE (Gatt_status_name (ret_wiced_bt_gatt_register B)) [],
      WICED_BT_TRACE (Lit []) []]
     @ (if WICED_BT_GATT_SUCCESS P \<noteq> ret_wiced_bt_gatt_db_init B
        then [WICED_BT_TRACE (Lit ''GATT DB Initialization not successful'') []] else [])
     @ (if WICED_SUCCESS P = ret_wiced_init_timer B \<and> WICED_SUCCESS P \<noteq> ret_wiced_start_timer B
        then [WICED_BT_TRACE (Lit ''Seconds Timer Error'') []] else [])
     @ (if WICED_SUCCESS P \<noteq> ret_wiced_bt_ble_set_raw_advertisement_data B
        then [WICED_BT_TRACE (Lit ''Raw advertisement failed'') []] else [])
     @ (if ret_wiced_ota_fw_upgrade_init B = 0
        then [WICED_BT_TRACE (Lit ''OTA upgrade Init failure !!!'') []] else [])
     @ (if WICED_SUCCESS P = ret_wiced_bt_start_advertisements B
        then [WICED_BT_TRACE (Lit ''Starting undirected BLE advertisements successful'') []]
        else [])"
    by (rule traces_app_init)
next
  show "WICED_SUCCESS P \<noteq> ret_wiced_bt_ble_set_raw_advertisement_data B \<and>
    WICED_BT_GATT_SUCCESS P = ret_wiced_bt_gatt_db_init B \<and>
    WICED_SUCCESS P = ret_wiced_init_timer B \<and>
    WICED_SUCCESS P = ret_wiced_start_timer B \<and>
    ret_wiced_ota_fw_upgrade_init B \<noteq> 0 \<and>
    WICED_SUCCESS P = ret_wiced_bt_start_advertisements B \<longrightarrow>
    traces (thermistor_app_init P B) =
      [WICED_BT_TRACE (Lit ''GATT status:'') [],
       WICED_BT_TRACE (Gatt_status_name (ret_wiced_bt_gatt_register B)) [],
       WICED_BT_TRACE (Lit []) [],
       WICED_BT_TRACE (Lit ''Raw advertisement failed'') [],
       WICED_BT_TRACE (Lit ''Starting undirected BLE advertisements successful'') []]"
    by (simp add: traces_app_init)
qed

text \<open>Every call succeeds but the advertisement-set step, which returns 1.\<close>

theorem init_steps_independent_witness:
  "WICED_SUCCESS sample_platform \<noteq>
     ret_wiced_bt_ble_set_raw_advertisement_data
       (all_succeed\<lparr>ret_wiced_bt_ble_set_raw_advertisement_data := 1\<rparr>) \<and>
   traces (thermistor_app_init sample_platform
             (all_succeed\<lparr>ret_wiced_bt_ble_set_raw_advertisement_data := 1\<rparr>)) =
      [WICED_BT_TRACE (Lit ''GATT status:'') [],
       WICED_BT_TRACE (Gatt_status_name 0) [],
       WICED_BT_TRACE (Lit []) [],
       WICED_BT_TRACE (Lit ''Raw advertisement failed'') [],
       WICED_BT_TRACE (Lit ''Starting undirected BLE advertisements successful'') []]"
  using init_steps_independent [of sample_platform
      "all_succeed\<lparr>ret_wiced_bt_ble_set_raw_advertisement_data := 1\<rparr>"]
  by (simp add: sample_platform_def all_succeed_def)

text \<open>
  The claim as stated fails: when \<open>wiced_init_timer\<close> fails, the lines printed are those of
  a run in which every step succeeds; when the start of advertising fails, only the GATT
  status lines are printed.
\<close>

theorem init_failures_without_log:
  "ret_wiced_init_timer (all_succeed\<lparr>ret_wiced_init_timer := 1\<rparr>) \<noteq> WICED_SUCCESS sample_platform \<and>
   traces (thermistor_app_init sample_platform (all_succeed\<lparr>ret_wiced_init_timer := 1\<rparr>)) =
      [WICED_BT_TRACE (Lit ''GATT status:'') [],
       WICED_BT_TRACE (Gatt_status_name 0) [],
       WICED_BT_TRACE (Lit []) [],
       WICED_BT_TRACE (Lit ''Starting undirected BLE advertisements successful'') []] \<and>
   traces (thermistor_app_init sample_platform all_succeed) =
      [WICED_BT_TRACE (Lit ''GATT status:'') [],
       WICED_BT_TRACE (Gatt_status_name 0) [],
       WICED_BT_TRACE (Lit []) [],
       WICED_BT_TRACE (Lit ''Starting undirected BLE advertisements successful'') []] \<and>
   ret_wiced_bt_start_advertisements (all_succeed\<lparr>ret_wiced_bt_start_advertisements := 1\<rparr>)
     \<noteq> WICED_SUCCESS sample_platform \<and>
   traces (thermistor_app_init sample_platform
             (all_succeed\<lparr>ret_wiced_bt_start_advertisements := 1\<rparr>)) =
      [WICED_BT_TRACE (Lit ''GATT status:'') [],
       WICED_BT_TRACE (Gatt_status_name 0) [],
       WICED_BT_TRACE (Lit []) []]"
  by (simp add: traces_def thermistor_app_init_def thermistor_set_advertisement_data_def Let_def
      sample_platform_def all_succeed_def)

section \<open>Runs of the entry points\<close>


lemma management_callback_state:
  "fst (snd (thermistor_management_callback P B event d s)) = s"
  by (cases event) (simp_all add: Let_def)

lemma management_callback_timer_calls:
  "filter is_timer_call (snd (snd (thermistor_management_callback P B event d s))) =
     (if event = BTM_ENABLED_EVT then filter is_timer_call (thermistor_app_init P B) else [])"
  by (cases event) (simp_all add: Let_def event_header_def)

lemma dispatch_frame:
  assumes "dispatch P s (c, B) = Inr (s', es)"
  shows "s' = s\<lparr>app_ess_temperature := app_ess_temperature s'\<rparr> \<and>
         (c \<noteq> Timer_expired \<longrightarrow> s' = s)"
proof (cases c)
  case Application_start
  with assms show ?thesis by simp
next
  case (Management event d)
  with assms management_callback_state [of P B event d s] show ?thesis
    by (auto split: prod.splits)
next
  case Timer_expired
  with assms show ?thesis
    by (auto simp: seconds_timer_temperature_cb_def Let_def split: if_splits list.splits)
qed

lemma dispatch_total:
  assumes "arrays_declared s"
  shows "\<exists>s' es. dispatch P s (c, B) = Inr (s', es) \<and> arrays_declared s' \<and>
           filter is_timer_call es =
             (if is_stack_enabled c then filter is_timer_call (thermistor_app_init P B) else [])"
proof (cases c)
  case Application_start
  with assms show ?thesis by (simp add: application_start_def)
next
  case (Management event d)
  obtain st s1 es1 where r: "thermistor_management_callback P B event d s = (st, s1, es1)"
    by (cases "thermistor_management_callback P B event d s") auto
  from r management_callback_state [of P B event d s] have "s1 = s" by simp
  moreover from r management_callback_timer_calls [of P B event d s]
  have "filter is_timer_call es1 =
          (if event = BTM_ENABLED_EVT then filter is_timer_call (thermistor_app_init P B) else [])"
    by simp
  moreover have "is_stack_enabled (Management event d) = (event = BTM_ENABLED_EVT)"
    by (cases event) simp_all
  ultimately show ?thesis using assms Management r by simp
next
  case Timer_expired
  with assms show ?thesis
    by (simp add: tick_result arrays_declared_def)
qed



lemma run_total:
  assumes "arrays_declared s"
  shows "\<exists>s' es. run P s cs = Inr (s', es) \<and> arrays_declared s' \<and>
           filter is_timer_call es =
             concat (map (\<lambda>cb. if is_stack_enabled (fst cb)
                                then filter is_timer_call (thermistor_app_init P (snd cb))
                                else []) cs)"
  using assms
proof (induction cs arbitrary: s)
  case Nil
  then show ?case by simp
next
  case (Cons cb cs)
  obtain c B where cb: "cb = (c, B)" by (cases cb)
  from dispatch_total [OF Cons.prems, of P c B]
  obtain s1 es1 where d: "dispatch P s (c, B) = Inr (s1, es1)" and wf1: "arrays_declared s1"
    and t1: "filter is_timer_call es1 =
          (if is_stack_enabled c then filter is_timer_call (thermistor_app_init P B) else [])"
    by blast
  from Cons.IH [OF wf1]
  obtain s2 es2 where r: "run P s1 cs = Inr (s2, es2)" and wf2: "arrays_declared s2"
    and t2: "filter is_timer_call es2 =
             concat (map (\<lambda>cb. if is_stack_enabled (fst cb)
                                then filter is_timer_call (thermistor_app_init P (snd cb))
                                else []) cs)"
    by blast
  show ?case
    using d r wf2 t1 t2 by (simp add: cb)
qed

lemma run_frame:
  assumes "run P s cs = Inr (s', es)"
  shows "s' = s\<lparr>app_ess_temperature := app_ess_temperature s'\<rparr> \<and>
         (filter (\<lambda>cb. fst cb = Timer_expired) cs = [] \<longrightarrow> s' = s)"
  using assms
proof (induction cs arbitrary: s es)
  case Nil
  then show ?case by simp
next
  case (Cons cb cs)
  obtain c B where cb: "cb = (c, B)" by (cases cb)
  from Cons.prems obtain s1 es1 es2 where d: "dispatch P s (c, B) = Inr (s1, es1)"
    and r: "run P s1 cs = Inr (s', es2)"
    by (auto simp: cb split: sum.splits prod.splits)
  from dispatch_frame [OF d] have f1: "s1 = s\<lparr>app_ess_temperature := app_ess_temperature s1\<rparr>"
    and g1: "c \<noteq> Timer_expired \<longrightarrow> s1 = s" by simp_all
  from Cons.IH [OF r] have f2: "s' = s1\<lparr>app_ess_temperature := app_ess_temperature s'\<rparr>"
    and g2: "filter (\<lambda>cb. fst cb = Timer_expired) cs = [] \<longrightarrow> s' = s1" by simp_all
  have "s' = s\<lparr>app_ess_temperature := app_ess_temperature s'\<rparr>"
    by (subst f2, subst f1) simp
  moreover have "filter (\<lambda>cb. fst cb = Timer_expired) (cb # cs) = [] \<longrightarrow> s' = s"
    using g1 g2 by (auto simp: cb split: if_splits)
  ultimately show ?case by blast
qed











text \<open>
  Claim C9. A run of the entry points from a state with the declared arrays returns, and
  whenever a run returns, \<open>thermistor_conn_id\<close> and the client characteristic configuration
  are what they were: the final state differs from the initial one in
  \<open>app_ess_temperature\<close> at most, and not at all when the run has no timer tick.
\<close>

theorem subscription_state_never_written:
  "(arrays_declared s \<longrightarrow> (\<exists>s' es. run P s cs = Inr (s', es))) \<and>
   (\<forall>s' es. run P s cs = Inr (s', es) \<longrightarrow>
      thermistor_conn_id s' = thermistor_conn_id s \<and>
      app_ess_temperature_client_char_config s' = app_ess_temperature_client_char_config s \<and>
      s' = s\<lparr>app_ess_temperature := app_ess_temperature s'\<rparr> \<and>
      (filter (\<lambda>cb. fst cb = Timer_expired) cs = [] \<longrightarrow> s' = s))"
proof (intro conjI impI allI)
  assume "arrays_declared s"
  from run_total [OF this, of P cs] show "\<exists>s' es. run P s cs = Inr (s', es)" by blast
next
  fix s' es assume r: "run P s cs = Inr (s', es)"
  from run_frame [OF r] have f: "s' = s\<lparr>app_ess_temperature := app_ess_temperature s'\<rparr>"
    by simp
  show "s' = s\<lparr>app_ess_temperature := app_ess_temperature s'\<rparr>" by (rule f)
  show "thermistor_conn_id s' = thermistor_conn_id s"
    by (subst f) simp
  show "app_ess_temperature_client_char_config s' = app_ess_temperature_client_char_config s"
    by (subst f) simp
next
  fix s' es assume r: "run P s cs = Inr (s', es)"
    and n: "filter (\<lambda>cb. fst cb = Timer_expired) cs = []"
  from run_frame [OF r] n show "s' = s" by simp
qed

text \<open>The enabling of the stack, a tick and the disabling, from connection id 7 and
  configuration bytes 1, 0.\<close>

theorem subscription_state_never_written_witness:
  "arrays_declared (example_state 7 1) \<and>
   (\<exists>s' es. run sample_platform (example_state 7 1)
               [(Management BTM_ENABLED_EVT no_event_data, all_succeed),
                (Timer_expired, all_succeed),
                (Management BTM_DISABLED_EVT no_event_data, all_succeed)] = Inr (s', es) \<and>
             thermistor_conn_id s' = 7 \<and>
             app_ess_temperature_client_char_config s' = [1, 0])"
proof -
  have a: "arrays_declared (example_state 7 1)"
    by (rule arrays_declared_example)
  note t = subscription_state_never_written [of "example_state 7 1" sample_platform
               "[(Management BTM_ENABLED_EVT no_event_data, all_succeed),
                (Timer_expired, all_succeed),
                (Management BTM_DISABLED_EVT no_event_data, all_succeed)]"]
  from t a obtain s' es where r: "run sample_platform (example_state 7 1)
               [(Management BTM_ENABLED_EVT no_event_data, all_succeed),
                (Timer_expired, all_succeed),
                (Management BTM_DISABLED_EVT no_event_data, all_succeed)] = Inr (s', es)"
    by blast
  from t r have "thermistor_conn_id s' = thermistor_conn_id (example_state 7 1)"
    and "app_ess_temperature_client_char_config s' =
         app_ess_temperature_client_char_config (example_state 7 1)"
    by blast+
  then have "thermistor_conn_id s' = 7 \<and> app_ess_temperature_client_char_config s' = [1, 0]"
    by (simp add: example_state_def)
  with a r show ?thesis by blast
qed

end
